theory Spec2Isabelle
  imports Main
begin

section \<open>The useQuery hook of src/react/hooks/useQuery.ts\<close>

text \<open>
  JavaScript objects have an identity and a content. Objects whose identity the hook
  compares (the client with \<open>!==\<close>, the observable query held in component state, the
  result object handed to the renderer) carry a reference, a natural number. Values the hook
  compares with \<open>equal\<close> of @wry/equality (the query document, the options, the data of a
  result) are modelled by their content: a type variable whose HOL equality is the deep
  structural equality of that library. An optional field is an \<open>option\<close>; \<open>None\<close> is
  \<open>undefined\<close>.
\<close>

type_synonym client_ref = nat
type_synonym handle = nat

definition equal' :: "'a \<Rightarrow> 'a \<Rightarrow> bool" where
  "equal' a b = (a = b)"

subsection \<open>Options\<close>

text \<open>
  The \<open>context\<close> entry of the options: of its entries the hook reads \<open>renderPromises\<close>
  only, and only for its truthiness; when present it is (a reference to) an object.
\<close>

record QueryContext =
  renderPromises :: "nat option"

text \<open>
  The fields that \<open>createWatchQueryOptions\<close> forwards to the engine: the rest of the
  destructuring of line 174. \<open>fetchPolicy\<close> and \<open>context\<close> are the two it reads;
  \<open>variables\<close>, \<open>pollInterval\<close> and \<open>errorPolicy\<close> pass through untouched, as
  every other forwarded field does.
\<close>

record 'v BaseQueryOptions =
  fetchPolicy :: "string option"
  context' :: "QueryContext option"
  client :: "client_ref option"
  variables :: "'v option"
  pollInterval :: "nat option"
  errorPolicy :: "string option"

text \<open>The hook's options: the forwarded fields and the five hook-specific ones.\<close>

record 'v QueryHookOptions = "'v BaseQueryOptions" +
  skip :: "bool option"
  ssr :: "bool option"
  onCompleted :: "nat option"
  onError :: "nat option"
  displayName :: "string option"

record ('q, 'v) WatchQueryOptions = "'v BaseQueryOptions" +
  query :: 'q

text \<open>The default \<open>options = {}\<close> of \<open>createWatchQueryOptions\<close>.\<close>

definition emptyOptions :: "'v QueryHookOptions" where
  "emptyOptions =
     \<lparr>fetchPolicy = None, context' = None, client = None, variables = None,
      pollInterval = None, errorPolicy = None,
      skip = None, ssr = None, onCompleted = None, onError = None, displayName = None\<rparr>"

text \<open>JavaScript truthiness of the three values the hook tests.\<close>

definition truthyFlag :: "bool option \<Rightarrow> bool" where
  "truthyFlag b = (b = Some True)"

definition truthyString :: "string option \<Rightarrow> bool" where
  "truthyString s = (case s of None \<Rightarrow> False | Some t \<Rightarrow> t \<noteq> [])"

definition contextRenderPromises :: "QueryContext option \<Rightarrow> bool" where
  "contextRenderPromises c =
     (case c of None \<Rightarrow> False | Some x \<Rightarrow> renderPromises x \<noteq> None)"

text \<open>
  Lines 183 to 199: the fetch policy of the configuration. The tests are JavaScript's:
  \<open>skip\<close> and \<open>context?.renderPromises\<close> for truthiness, the policy against the two
  string literals, \<open>!fetchPolicy\<close> for a missing or empty policy.
\<close>

definition normalizedFetchPolicy :: "'v QueryHookOptions \<Rightarrow> string option" where
  "normalizedFetchPolicy opts =
     (if truthyFlag (skip opts) then Some ''standby''
      else if contextRenderPromises (context' opts) \<and>
              (fetchPolicy opts = Some ''network-only'' \<or>
               fetchPolicy opts = Some ''cache-and-network'')
        then Some ''cache-first''
      else if \<not> truthyString (fetchPolicy opts) then Some ''cache-first''
      else fetchPolicy opts)"

text \<open>
  Lines 167 to 202. The five hook-specific fields are dropped, the forwarded ones are copied
  with the fetch policy above, and \<open>query\<close> is the hook's first argument (the options are
  taken to have no \<open>query\<close> entry of their own, which the spread of line 201 would put in
  its place).
\<close>

definition createWatchQueryOptions ::
  "'q \<Rightarrow> 'v QueryHookOptions option \<Rightarrow> ('q, 'v) WatchQueryOptions" where
  "createWatchQueryOptions q options =
     (let opts = (case options of None \<Rightarrow> emptyOptions | Some x \<Rightarrow> x) in
      \<lparr>fetchPolicy = normalizedFetchPolicy opts,
       context' = context' opts,
       client = client opts,
       variables = variables opts,
       pollInterval = pollInterval opts,
       errorPolicy = errorPolicy opts,
       query = q\<rparr>)"

subsection \<open>Results and the snapshot memoizer\<close>

text \<open>
  An \<open>ApolloQueryResult\<close> object: \<open>oid\<close> is the identity of the object, the other
  fields are the ones the hook and the renderer read.
\<close>

record 'd ApolloQueryResult =
  oid :: nat
  data :: "'d option"
  loading :: bool
  networkStatus :: nat
  error :: "string option"

text \<open>
  Lines 113 to 127. \<open>previousResult\<close> is the variable of the enclosing \<open>useMemo\<close>
  closure, \<open>result\<close> what \<open>obsQuery.getCurrentResult()\<close> returned for this read. The
  function returns the new value of \<open>previousResult\<close> and the object handed back.
\<close>

definition getSnapshot ::
  "'d ApolloQueryResult option \<Rightarrow> 'd ApolloQueryResult \<Rightarrow>
   'd ApolloQueryResult option \<times> 'd ApolloQueryResult" where
  "getSnapshot previousResult result =
     (case previousResult of
        None \<Rightarrow> (Some result, result)
      | Some p \<Rightarrow>
          if \<not> (loading p = loading result \<and>
                 networkStatus p = networkStatus result \<and>
                 equal' (data p) (data result))
          then (Some result, result)
          else (Some p, p))"

subsection \<open>The engine\<close>

datatype ('e, 'a) promise = Fulfilled 'a | Rejected 'e

text \<open>
  \<open>p.catch(h)\<close> with a handler that returns normally: a rejection is turned into the
  handler's value, a fulfilment passes through.
\<close>

definition promiseCatch :: "('e, 'a) promise \<Rightarrow> ('e \<Rightarrow> 'b) \<Rightarrow> ('e, 'a + 'b) promise" where
  "promiseCatch p h = (case p of Fulfilled v \<Rightarrow> Fulfilled (Inl v) | Rejected e \<Rightarrow> Fulfilled (Inr (h e)))"

text \<open>
  The observable queries of the engine. A handle is the index of its object in
  \<open>observables\<close>, which keeps for each the client that created it and the options it was
  created with or last given by \<open>setOptions\<close>. \<open>currentResults\<close> and
  \<open>setOptionsError\<close> are what the engine answers, which the hook does not decide: the
  current result of each observable query, and whether a \<open>setOptions\<close> call is rejected.
\<close>

record ('q, 'v, 'd) Engine =
  observables :: "(client_ref \<times> ('q, 'v) WatchQueryOptions) list"
  currentResults :: "handle \<Rightarrow> 'd ApolloQueryResult"
  setOptionsError :: "handle \<Rightarrow> ('q, 'v) WatchQueryOptions \<Rightarrow> string option"

text \<open>
  Modelled from the spec: \<open>client.watchQuery\<close>, of ApolloClient, which is not among the
  sources. Section 6: \<open>createObservable(Configuration) -> ObservableHandle\<close>; section 3: a
  handle has the configuration used to create it and an identity of its own.
\<close>

definition watchQuery ::
  "('q, 'v, 'd) Engine \<Rightarrow> client_ref \<Rightarrow> ('q, 'v) WatchQueryOptions \<Rightarrow>
   handle \<times> ('q, 'v, 'd) Engine" where
  "watchQuery eng cl wqo =
     (length (observables eng), eng\<lparr>observables := observables eng @ [(cl, wqo)]\<rparr>)"

text \<open>
  Modelled from the spec: \<open>setOptions\<close> and \<open>getCurrentResult\<close> of ObservableQuery,
  which is not among the sources. Section 4.3: \<open>reconfigure(Configuration) -> may fail
  asynchronously\<close>, \<open>currentSnapshot() -> Snapshot\<close>. The call is recorded on the handle
  whether or not its promise is rejected.
\<close>

definition setOptions ::
  "('q, 'v, 'd) Engine \<Rightarrow> handle \<Rightarrow> ('q, 'v) WatchQueryOptions \<Rightarrow>
   (string, 'd ApolloQueryResult) promise \<times> ('q, 'v, 'd) Engine" where
  "setOptions eng h wqo =
     ((case setOptionsError eng h wqo of
         None \<Rightarrow> Fulfilled (currentResults eng h)
       | Some e \<Rightarrow> Rejected e),
      (if h < length (observables eng)
       then eng\<lparr>observables := (observables eng)[h := (fst (observables eng ! h), wqo)]\<rparr>
       else eng))"

definition getCurrentResult :: "('q, 'v, 'd) Engine \<Rightarrow> handle \<Rightarrow> 'd ApolloQueryResult" where
  "getCurrentResult eng h = currentResults eng h"

subsection \<open>The pre-render coordinator\<close>

text \<open>
  What the hook passes to \<open>addQueryPromise\<close> (lines 69 to 90): \<open>getOptions\<close> returns
  \<open>createWatchQueryOptions(query, options)\<close>, and \<open>fetchData\<close> subscribes to the
  observable query \<open>fetchDataOn\<close>.
\<close>

record ('q, 'v) QueryInstance =
  getOptions :: "('q, 'v) WatchQueryOptions"
  fetchDataOn :: handle

record ('q, 'v) RenderPromises =
  ssrObservables :: "(('q, 'v) WatchQueryOptions \<times> handle) list"
  queryPromises :: "('q, 'v) QueryInstance list"

text \<open>
  Modelled from the spec: the three methods of RenderPromises, which is not among the
  sources. Section 6: \<open>lookupExistingHandle(Configuration) -> ObservableHandle | absent\<close>,
  \<open>registerHandle(ObservableHandle, Configuration)\<close> and
  \<open>registerPendingHydration({configurationAccessor, waitFn}, noopCallback)\<close>.
\<close>

definition getSSRObservable ::
  "('q, 'v) RenderPromises \<Rightarrow> ('q, 'v) WatchQueryOptions \<Rightarrow> handle option" where
  "getSSRObservable rp wqo = map_of (ssrObservables rp) wqo"

definition registerSSRObservable ::
  "('q, 'v) RenderPromises \<Rightarrow> handle \<Rightarrow> ('q, 'v) WatchQueryOptions \<Rightarrow> ('q, 'v) RenderPromises" where
  "registerSSRObservable rp h wqo = rp\<lparr>ssrObservables := (wqo, h) # ssrObservables rp\<rparr>"

definition addQueryPromise ::
  "('q, 'v) RenderPromises \<Rightarrow> ('q, 'v) QueryInstance \<Rightarrow> ('q, 'v) RenderPromises" where
  "addQueryPromise rp qi = rp\<lparr>queryPromises := queryPromises rp @ [qi]\<rparr>"

text \<open>The pending hydrations registered with the coordinator of the context, if there is one.\<close>

definition pendingHydrations :: "('q, 'v) RenderPromises option \<Rightarrow> ('q, 'v) QueryInstance list" where
  "pendingHydrations rp = (case rp of None \<Rightarrow> [] | Some r \<Rightarrow> queryPromises r)"

subsection \<open>Mounting: the initializer of useState and the reference cell\<close>

text \<open>\<open>options?.ssr\<close> and \<open>options?.skip\<close>.\<close>

definition optionsSsr :: "'v QueryHookOptions option \<Rightarrow> bool option" where
  "optionsSsr options = (case options of None \<Rightarrow> None | Some x \<Rightarrow> ssr x)"

definition optionsSkip :: "'v QueryHookOptions option \<Rightarrow> bool option" where
  "optionsSkip options = (case options of None \<Rightarrow> None | Some x \<Rightarrow> skip x)"

text \<open>
  Lines 40 to 97. \<open>rp\<close> is \<open>context.renderPromises\<close> of the React context, \<open>cl\<close> the
  client \<open>useApolloClient\<close> returned. The result is the observable query put in the
  component state, with the engine and the coordinator as the calls leave them.
\<close>

definition useState_init ::
  "('q, 'v) RenderPromises option \<Rightarrow> ('q, 'v, 'd) Engine \<Rightarrow> client_ref \<Rightarrow> 'q \<Rightarrow>
   'v QueryHookOptions option \<Rightarrow>
   handle \<times> ('q, 'v, 'd) Engine \<times> ('q, 'v) RenderPromises option" where
  "useState_init rp eng cl q options =
     (let watchQueryOptions = createWatchQueryOptions q options;
          found = (case rp of None \<Rightarrow> None | Some r \<Rightarrow> getSSRObservable r watchQueryOptions);
          (obsQuery, eng1, rp1) =
            (case found of
               Some h \<Rightarrow> (h, eng, rp)
             | None \<Rightarrow>
                 (let (h, e) = watchQuery eng cl watchQueryOptions in
                  (h, e, map_option (\<lambda>r. registerSSRObservable r h watchQueryOptions) rp)));
          rp2 =
            (if rp1 \<noteq> None \<and> optionsSsr options \<noteq> Some False \<and>
                \<not> truthyFlag (optionsSkip options) \<and>
                loading (getCurrentResult eng1 obsQuery)
             then map_option
                    (\<lambda>r. addQueryPromise r
                       \<lparr>getOptions = createWatchQueryOptions q options,
                        fetchDataOn = obsQuery\<rparr>) rp1
             else rp1)
      in (obsQuery, eng1, rp2))"

text \<open>
  The reference cell of lines 33 to 38 and the component state of line 40: what a mounted
  hook keeps from one render to the next.
\<close>

record ('q, 'v) HookRef =
  ref_client :: client_ref
  ref_query :: 'q
  ref_options :: "'v QueryHookOptions option"
  ref_watchQueryOptions :: "('q, 'v) WatchQueryOptions"

record ('q, 'v) Binding =
  ref :: "('q, 'v) HookRef"
  obsQuery :: handle

definition mount ::
  "('q, 'v) RenderPromises option \<Rightarrow> ('q, 'v, 'd) Engine \<Rightarrow> client_ref \<Rightarrow> 'q \<Rightarrow>
   'v QueryHookOptions option \<Rightarrow>
   ('q, 'v) Binding \<times> ('q, 'v, 'd) Engine \<times> ('q, 'v) RenderPromises option" where
  "mount rp eng cl q options =
     (let (h, eng', rp') = useState_init rp eng cl q options in
      (\<lparr>ref = \<lparr>ref_client = cl, ref_query = q, ref_options = options,
               ref_watchQueryOptions = createWatchQueryOptions q options\<rparr>,
        obsQuery = h\<rparr>, eng', rp'))"

subsection \<open>The effect of lines 135 to 146\<close>

text \<open>
  One run of the body of the effect, which React calls after a render in which the
  observable query, the client, the query or the options is not the object of the render
  before. \<open>b\<close> is what the hook kept from the earlier renders; \<open>cl\<close>, \<open>q\<close> and
  \<open>options\<close> are the client, the query and the options of this render.
  \<open>setObsQuery\<close> puts the new observable query in the component state.

  The third component of the result tells what the run did to the observable query:
  replaced it by a new one, called \<open>setOptions\<close> on it (with the promise that
  \<open>.catch(() => {})\<close> leaves), or nothing.
\<close>

datatype 'd reconciliation =
    Replaced
  | Reconfigured "(string, 'd ApolloQueryResult + unit) promise"
  | Kept

definition useEffect ::
  "('q, 'v, 'd) Engine \<Rightarrow> ('q, 'v) Binding \<Rightarrow> client_ref \<Rightarrow> 'q \<Rightarrow>
   'v QueryHookOptions option \<Rightarrow>
   ('q, 'v) Binding \<times> ('q, 'v, 'd) Engine \<times> 'd reconciliation" where
  "useEffect eng b cl q options =
     (let watchQueryOptions = createWatchQueryOptions q options;
          (h, eng', outcome) =
            (if ref_client (ref b) \<noteq> cl \<or> \<not> equal' (ref_query (ref b)) q then
               (let (h, e) = watchQuery eng cl watchQueryOptions in (h, e, Replaced))
             else if \<not> equal' (ref_watchQueryOptions (ref b)) watchQueryOptions then
               (let (p, e) = setOptions eng (obsQuery b) watchQueryOptions in
                (obsQuery b, e, Reconfigured (promiseCatch p (\<lambda>_. ()))))
             else (obsQuery b, eng, Kept))
      in (\<lparr>ref = (ref b)\<lparr>ref_client := cl, ref_query := q, ref_options := options\<rparr>,
           obsQuery = h\<rparr>, eng', outcome))"

text \<open>
  The inputs of one render (the client, the query, the options), and a mounted hook taken
  through the effect runs of a sequence of renders.
\<close>

type_synonym ('q, 'v) render = "client_ref \<times> 'q \<times> 'v QueryHookOptions option"

fun cycles ::
  "('q, 'v, 'd) Engine \<Rightarrow> ('q, 'v) Binding \<Rightarrow> ('q, 'v) render list \<Rightarrow>
   ('q, 'v) Binding \<times> ('q, 'v, 'd) Engine" where
  "cycles eng b [] = (b, eng)"
| "cycles eng b ((cl, q, options) # rs) =
     (let (b', eng', outcome) = useEffect eng b cl q options in cycles eng' b' rs)"

subsection \<open>The wait of a pending hydration\<close>

text \<open>
  Lines 73 to 89. \<open>resolved\<close> lists the calls of \<open>resolve\<close>, each with the callback
  that made it; \<open>unsubscribed\<close> counts the calls of \<open>sub.unsubscribe()\<close>; \<open>closed\<close>
  is the state of the subscription \<open>sub\<close>.
\<close>

datatype resolution = ViaData | ViaError | ViaCompletion

record Hydration =
  closed :: bool
  resolved :: "resolution list"
  unsubscribed :: nat

datatype 'd notification = Next "'d ApolloQueryResult" | Error string | Complete

definition resolve :: "resolution \<Rightarrow> Hydration \<Rightarrow> Hydration" where
  "resolve r w = w\<lparr>resolved := resolved w @ [r]\<rparr>"

definition unsubscribe :: "Hydration \<Rightarrow> Hydration" where
  "unsubscribe w = w\<lparr>closed := True, unsubscribed := Suc (unsubscribed w)\<rparr>"

text \<open>The three callbacks of the observer.\<close>

definition observer_next :: "Hydration \<Rightarrow> 'd ApolloQueryResult \<Rightarrow> Hydration" where
  "observer_next w result = (if \<not> loading result then unsubscribe (resolve ViaData w) else w)"

definition observer_error :: "Hydration \<Rightarrow> Hydration" where
  "observer_error w = unsubscribe (resolve ViaError w)"

definition observer_complete :: "Hydration \<Rightarrow> Hydration" where
  "observer_complete w = resolve ViaCompletion w"

text \<open>
  The subscription, as an Observable delivers: nothing reaches the observer of a closed
  subscription, and an error or a completion closes the subscription before the observer
  is called.
\<close>

fun deliver :: "Hydration \<Rightarrow> 'd notification \<Rightarrow> Hydration" where
  "deliver w (Next result) = (if closed w then w else observer_next w result)"
| "deliver w (Error e) = (if closed w then w else observer_error (w\<lparr>closed := True\<rparr>))"
| "deliver w Complete = (if closed w then w else observer_complete (w\<lparr>closed := True\<rparr>))"

text \<open>
  \<open>fetchData\<close> on the notifications the observable query sends over the life of the
  subscription, in order.
\<close>

definition fetchData :: "'d notification list \<Rightarrow> Hydration" where
  "fetchData ns = foldl deliver \<lparr>closed = False, resolved = [], unsubscribed = 0\<rparr> ns"

text \<open>The notifications on which a callback calls \<open>resolve\<close>, and the path each takes.\<close>

fun resolving :: "'d notification \<Rightarrow> bool" where
  "resolving (Next result) = (\<not> loading result)"
| "resolving (Error e) = True"
| "resolving Complete = True"

fun path :: "'d notification \<Rightarrow> resolution" where
  "path (Next result) = ViaData"
| "path (Error e) = ViaError"
| "path Complete = ViaCompletion"

section \<open>Properties\<close>

subsection \<open>createWatchQueryOptions\<close>

text \<open>
  C6: whenever the skip flag is set, the configuration computed by
  \<open>createWatchQueryOptions\<close> has the fetch policy \<open>standby\<close>, whatever fetch policy
  the caller supplied and whether or not the options' context carries \<open>renderPromises\<close>.
\<close>

theorem skip_forces_standby:
  "skip opts = Some True \<Longrightarrow>
   fetchPolicy (createWatchQueryOptions q (Some opts)) = Some ''standby''"
  by (simp add: createWatchQueryOptions_def normalizedFetchPolicy_def truthyFlag_def)

theorem skip_forces_standby_witness:
  "fetchPolicy (createWatchQueryOptions ''Q''
     (Some ((emptyOptions :: nat QueryHookOptions)
        \<lparr>fetchPolicy := Some ''network-only'',
         context' := Some \<lparr>renderPromises = Some 0\<rparr>,
         skip := Some True\<rparr>))) = Some ''standby''"
  using skip_forces_standby
    [of "(emptyOptions :: nat QueryHookOptions)
        \<lparr>fetchPolicy := Some ''network-only'',
         context' := Some \<lparr>renderPromises = Some 0\<rparr>,
         skip := Some True\<rparr>" "''Q''"]
  by simp

text \<open>
  The second branch of \<open>createWatchQueryOptions\<close> reads the \<open>context\<close> entry of the
  caller's options: when that entry carries \<open>renderPromises\<close>, the skip flag is not set
  and the fetch policy is \<open>network-only\<close> or \<open>cache-and-network\<close>, the configuration's
  fetch policy is \<open>cache-first\<close>.
\<close>

lemma options_context_downgrades_policy:
  assumes "\<not> truthyFlag (skip opts)"
    and "contextRenderPromises (context' opts)"
    and "fetchPolicy opts = Some ''network-only'' \<or>
         fetchPolicy opts = Some ''cache-and-network''"
  shows "fetchPolicy (createWatchQueryOptions q (Some opts)) = Some ''cache-first''"
  using assms by (simp add: createWatchQueryOptions_def normalizedFetchPolicy_def)

text \<open>
  C7, evaluated on a hook mounted during a hydration pass: the React context has a
  coordinator, the skip flag is not set and the caller's only option is the fetch policy
  \<open>network-only\<close>. The hook reads the coordinator from the React context and never puts it
  in the options, whose \<open>context\<close> entry is all \<open>createWatchQueryOptions\<close> tests. The
  policy is not downgraded: the configuration, the observable query created from it and
  the pending hydration registered with the coordinator all have \<open>network-only\<close>.
\<close>

theorem hydration_pass_keeps_network_only:
  "let rp = Some \<lparr>ssrObservables = [], queryPromises = []\<rparr>;
       options = Some ((emptyOptions :: nat QueryHookOptions)
                   \<lparr>fetchPolicy := Some ''network-only''\<rparr>);
       eng = \<lparr>observables = [],
              currentResults = (\<lambda>h. \<lparr>oid = h, data = None :: nat option, loading = True,
                                     networkStatus = 1, error = None\<rparr>),
              setOptionsError = (\<lambda>h w. None)\<rparr>;
       (h, eng', rp') = useState_init rp eng 0 ''Q'' options
   in rp \<noteq> None \<and>
      \<not> truthyFlag (optionsSkip options) \<and>
      fetchPolicy (createWatchQueryOptions ''Q'' options) = Some ''network-only'' \<and>
      fetchPolicy (snd (observables eng' ! h)) = Some ''network-only'' \<and>
      map (\<lambda>p. (fetchPolicy (getOptions p), fetchDataOn p)) (pendingHydrations rp')
        = [(Some ''network-only'', h)]"
  by (simp add: Let_def useState_init_def watchQuery_def getSSRObservable_def
        registerSSRObservable_def addQueryPromise_def pendingHydrations_def
        getCurrentResult_def optionsSsr_def optionsSkip_def truthyFlag_def truthyString_def
        contextRenderPromises_def emptyOptions_def createWatchQueryOptions_def
        normalizedFetchPolicy_def)

subsection \<open>getSnapshot\<close>

text \<open>
  C3: take two consecutive reads of one memoizer, in any state \<open>p0\<close>, for which the engine
  returns \<open>r1\<close> and then \<open>r2\<close>. If \<open>r1\<close> and \<open>r2\<close> have the same loading flag, the
  same network status and deeply equal data, the second read returns the very object the
  first read returned.
\<close>

theorem getSnapshot_stable:
  assumes "loading r1 = loading r2"
    and "networkStatus r1 = networkStatus r2"
    and "equal' (data r1) (data r2)"
  shows "snd (getSnapshot (fst (getSnapshot p0 r1)) r2) = snd (getSnapshot p0 r1)"
  using assms by (cases p0) (auto simp: getSnapshot_def equal'_def)

theorem getSnapshot_stable_witness:
  "oid (snd (getSnapshot
       (fst (getSnapshot None
          \<lparr>oid = 1, data = Some (5::nat), loading = False, networkStatus = 7, error = None\<rparr>))
       \<lparr>oid = 2, data = Some 5, loading = False, networkStatus = 7, error = None\<rparr>)) = 1"
  using getSnapshot_stable
    [of "\<lparr>oid = 1, data = Some (5::nat), loading = False, networkStatus = 7, error = None\<rparr>"
        "\<lparr>oid = 2, data = Some (5::nat), loading = False, networkStatus = 7, error = None\<rparr>"
        None]
  by (simp add: getSnapshot_def equal'_def)

text \<open>
  C2, as the specification states it, fails: the memoized result has no error, the current
  result differs from it in the error field only, and the read returns the memoized object,
  not the current one.
\<close>

theorem error_transition_suppressed:
  "error \<lparr>oid = 2, data = Some (5::nat), loading = False, networkStatus = 7,
           error = Some ''Network error''\<rparr>
     \<noteq> error \<lparr>oid = 1, data = Some (5::nat), loading = False, networkStatus = 7,
               error = None\<rparr> \<and>
   snd (getSnapshot
      (Some \<lparr>oid = 1, data = Some (5::nat), loading = False, networkStatus = 7,
             error = None\<rparr>)
      \<lparr>oid = 2, data = Some 5, loading = False, networkStatus = 7,
        error = Some ''Network error''\<rparr>)
    = \<lparr>oid = 1, data = Some 5, loading = False, networkStatus = 7, error = None\<rparr>"
  by (simp add: getSnapshot_def equal'_def)

text \<open>
  C2, amended: on a read whose current result \<open>r\<close> differs in the error field from the
  memoized result \<open>p\<close>, the read returns the current object exactly when the loading flag,
  the network status or the data also differ; when those three are equal it returns the
  memoized object.
\<close>

theorem error_transition_needs_other_change:
  assumes "error p \<noteq> error r"
  shows "(snd (getSnapshot (Some p) r) = r) =
           (loading p \<noteq> loading r \<or> networkStatus p \<noteq> networkStatus r \<or>
            \<not> equal' (data p) (data r)) \<and>
         (snd (getSnapshot (Some p) r) = p) =
           (loading p = loading r \<and> networkStatus p = networkStatus r \<and>
            equal' (data p) (data r))"
  using assms by (auto simp: getSnapshot_def)

theorem error_transition_needs_other_change_witness:
  "snd (getSnapshot
      (Some \<lparr>oid = 1, data = Some (5::nat), loading = True, networkStatus = 1,
             error = None\<rparr>)
      \<lparr>oid = 2, data = Some 5, loading = False, networkStatus = 8,
        error = Some ''Network error''\<rparr>)
    = \<lparr>oid = 2, data = Some 5, loading = False, networkStatus = 8,
        error = Some ''Network error''\<rparr>"
  using error_transition_needs_other_change
    [of "\<lparr>oid = 1, data = Some (5::nat), loading = True, networkStatus = 1, error = None\<rparr>"
        "\<lparr>oid = 2, data = Some (5::nat), loading = False, networkStatus = 8,
          error = Some ''Network error''\<rparr>"]
  by simp

subsection \<open>The effect: replacing, reconfiguring or keeping the observable query\<close>

lemma useEffect_ref:
  "ref (fst (useEffect eng b cl q options)) =
     (ref b)\<lparr>ref_client := cl, ref_query := q, ref_options := options\<rparr>"
  by (simp add: useEffect_def Let_def split: prod.splits)

text \<open>
  The observable query of the component state is one of the engine's: this holds after
  mounting, when the coordinator holds observable queries of the engine only, and every run
  of the effect keeps it.
\<close>

lemma mount_handle_live:
  assumes "\<forall>r wqo h. rp = Some r \<longrightarrow> getSSRObservable r wqo = Some h \<longrightarrow>
             h < length (observables eng)"
  shows "obsQuery (fst (mount rp eng cl q options))
           < length (observables (fst (snd (mount rp eng cl q options))))"
  using assms
  by (cases rp; cases "getSSRObservable (the rp) (createWatchQueryOptions q options)")
     (auto simp: mount_def useState_init_def watchQuery_def Let_def split: prod.splits)

lemma useEffect_handle_live:
  assumes "obsQuery b < length (observables eng)"
  shows "obsQuery (fst (useEffect eng b cl q options))
           < length (observables (fst (snd (useEffect eng b cl q options))))"
  using assms by (auto simp: useEffect_def watchQuery_def setOptions_def Let_def)

text \<open>
  C4: on a run of the effect in which the client is not the one of the previous run, or the
  query is not deeply equal to the previous one, the hook asks the client for a new
  observable query with the configuration computed from the current query and options, and
  puts it in the component state in place of the old one: the new handle is none of the
  engine's earlier ones, so it is not the old handle. Nothing else is required of the
  options.
\<close>

theorem client_or_query_change_replaces:
  assumes "ref_client (ref b) \<noteq> cl \<or> \<not> equal' (ref_query (ref b)) q"
    and "obsQuery b < length (observables eng)"
  shows "let (b', eng', outcome) = useEffect eng b cl q options in
         outcome = Replaced \<and>
         obsQuery b' \<noteq> obsQuery b \<and>
         obsQuery b' = length (observables eng) \<and>
         observables eng' = observables eng @ [(cl, createWatchQueryOptions q options)]"
  using assms by (auto simp: useEffect_def watchQuery_def Let_def)

theorem client_or_query_change_replaces_witness:
  "let eng = \<lparr>observables = [(0, createWatchQueryOptions ''Q'' (None :: nat QueryHookOptions option))],
       currentResults = (\<lambda>h. \<lparr>oid = h, data = None :: nat option, loading = True,
                              networkStatus = 1, error = None\<rparr>),
       setOptionsError = (\<lambda>h w. None)\<rparr>;
       b = \<lparr>ref = \<lparr>ref_client = 0, ref_query = ''Q'', ref_options = None,
                   ref_watchQueryOptions = createWatchQueryOptions ''Q'' None\<rparr>,
            obsQuery = 0\<rparr>;
       (b', eng', outcome) = useEffect eng b 1 ''Q'' None
   in outcome = Replaced \<and> obsQuery b = 0 \<and> obsQuery b' = 1 \<and>
      observables eng' ! 1 = (1, createWatchQueryOptions ''Q'' None)"
  using client_or_query_change_replaces
    [of "\<lparr>ref = \<lparr>ref_client = 0, ref_query = ''Q'', ref_options = None,
                 ref_watchQueryOptions = createWatchQueryOptions ''Q'' None\<rparr>,
          obsQuery = 0\<rparr>" 1 "''Q''"
        "\<lparr>observables = [(0, createWatchQueryOptions ''Q'' (None :: nat QueryHookOptions option))],
       currentResults = (\<lambda>h. \<lparr>oid = h, data = None :: nat option, loading = True,
                              networkStatus = 1, error = None\<rparr>),
       setOptionsError = (\<lambda>h w. None)\<rparr>" None]
  by (simp add: Let_def split: prod.splits)

text \<open>
  C1, evaluated on three renders with the same client and the same query: the hook is
  mounted with the variables 1, then rendered with the variables 2, then with the
  variables 1 again. The second render calls \<open>setOptions\<close>, so the observable query was
  last reconfigured with the configuration of the variables 2. On the third render the
  configuration differs from that one, and the effect calls nothing: it compares with the
  configuration computed when the hook was mounted. The observable query keeps the
  configuration of the variables 2.
\<close>

theorem reconfigure_compares_with_mount_configuration:
  "let o1 = Some ((emptyOptions :: nat QueryHookOptions)\<lparr>variables := Some 1\<rparr>);
       o2 = Some ((emptyOptions :: nat QueryHookOptions)\<lparr>variables := Some 2\<rparr>);
       eng = \<lparr>observables = [],
              currentResults = (\<lambda>h. \<lparr>oid = h, data = None :: nat option, loading = True,
                                     networkStatus = 1, error = None\<rparr>),
              setOptionsError = (\<lambda>h w. None)\<rparr>;
       (b0, eng0, rp0) = mount None eng 0 ''Q'' o1;
       (b1, eng1, did1) = useEffect eng0 b0 0 ''Q'' o1;
       (b2, eng2, did2) = useEffect eng1 b1 0 ''Q'' o2;
       (b3, eng3, did3) = useEffect eng2 b2 0 ''Q'' o1
   in did1 = Kept \<and>
      did2 = Reconfigured (Fulfilled (Inl (currentResults eng 0))) \<and>
      snd (observables eng2 ! obsQuery b2) = createWatchQueryOptions ''Q'' o2 \<and>
      ref_client (ref b2) = 0 \<and> equal' (ref_query (ref b2)) ''Q'' \<and>
      \<not> equal' (snd (observables eng2 ! obsQuery b2)) (createWatchQueryOptions ''Q'' o1) \<and>
      did3 = Kept \<and>
      obsQuery b3 = obsQuery b2 \<and>
      snd (observables eng3 ! obsQuery b3) = createWatchQueryOptions ''Q'' o2"
  by (simp add: Let_def mount_def useState_init_def useEffect_def watchQuery_def setOptions_def
       equal'_def createWatchQueryOptions_def promiseCatch_def emptyOptions_def
       normalizedFetchPolicy_def truthyFlag_def truthyString_def contextRenderPromises_def)

theorem reconfigure_compares_with_mount_configuration_witness:
  "let o1 = Some ((emptyOptions :: nat QueryHookOptions)\<lparr>variables := Some 1\<rparr>);
       o2 = Some ((emptyOptions :: nat QueryHookOptions)\<lparr>variables := Some 2\<rparr>);
       eng = \<lparr>observables = [],
       currentResults = (\<lambda>h. \<lparr>oid = h, data = None :: nat option, loading = True,
                              networkStatus = 1, error = None\<rparr>),
       setOptionsError = (\<lambda>h w. None)\<rparr>;
       (b0, eng0, rp0) = mount None eng 0 ''Q'' o1;
       (b1, eng1, did1) = useEffect eng0 b0 0 ''Q'' o1;
       (b2, eng2, did2) = useEffect eng1 b1 0 ''Q'' o2;
       (b3, eng3, did3) = useEffect eng2 b2 0 ''Q'' o1
   in did3 = Kept \<and> variables (snd (observables eng3 ! obsQuery b3)) = Some 2"
  using reconfigure_compares_with_mount_configuration
  by (simp add: Let_def mount_def useState_init_def useEffect_def watchQuery_def setOptions_def
       equal'_def createWatchQueryOptions_def promiseCatch_def emptyOptions_def
       normalizedFetchPolicy_def truthyFlag_def truthyString_def contextRenderPromises_def)

text \<open>
  C5: on a run of the effect that reconfigures the observable query (same client, deeply
  equal query, a configuration that differs from the one of the reference cell), the promise
  the effect is left with is fulfilled whether \<open>setOptions\<close> fulfils or rejects its own: a
  rejection is turned into the handler's \<open>undefined\<close>. The run ends as every run does: the
  reference cell takes the client, the query and the options, and the observable query stays
  in the component state.
\<close>

theorem setOptions_rejection_swallowed:
  assumes "ref_client (ref b) = cl"
    and "equal' (ref_query (ref b)) q"
    and "\<not> equal' (ref_watchQueryOptions (ref b)) (createWatchQueryOptions q options)"
  shows "let (b', eng', outcome) = useEffect eng b cl q options in
         outcome = Reconfigured (Fulfilled
           (case setOptionsError eng (obsQuery b) (createWatchQueryOptions q options) of
              None \<Rightarrow> Inl (currentResults eng (obsQuery b))
            | Some e \<Rightarrow> Inr ())) \<and>
         b' = \<lparr>ref = (ref b)\<lparr>ref_client := cl, ref_query := q, ref_options := options\<rparr>,
               obsQuery = obsQuery b\<rparr>"
  using assms
  by (auto simp: useEffect_def setOptions_def promiseCatch_def Let_def split: option.splits)

theorem setOptions_rejection_swallowed_witness:
  "let eng = \<lparr>observables = [(0, createWatchQueryOptions ''Q'' (None :: nat QueryHookOptions option))],
       currentResults = (\<lambda>h. \<lparr>oid = h, data = None :: nat option, loading = True,
                              networkStatus = 1, error = None\<rparr>),
       setOptionsError = (\<lambda>h w. Some ''Network error'')\<rparr>;
       b = \<lparr>ref = \<lparr>ref_client = 0, ref_query = ''Q'', ref_options = None,
                 ref_watchQueryOptions = createWatchQueryOptions ''Q'' None\<rparr>,
          obsQuery = 0\<rparr>;
       (b', eng', outcome) = useEffect eng b 0 ''Q'' (Some ((emptyOptions :: nat QueryHookOptions)\<lparr>variables := Some 2\<rparr>))
   in setOptionsError eng (obsQuery b) (createWatchQueryOptions ''Q'' (Some ((emptyOptions :: nat QueryHookOptions)\<lparr>variables := Some 2\<rparr>)))
        = Some ''Network error'' \<and>
      outcome = Reconfigured (Fulfilled (Inr ())) \<and>
      obsQuery b' = 0 \<and> ref_options (ref b') = (Some ((emptyOptions :: nat QueryHookOptions)\<lparr>variables := Some 2\<rparr>))"
  using setOptions_rejection_swallowed
    [of "\<lparr>ref = \<lparr>ref_client = 0, ref_query = ''Q'', ref_options = None,
                 ref_watchQueryOptions = createWatchQueryOptions ''Q'' None\<rparr>,
          obsQuery = 0\<rparr>" 0 "''Q''" "(Some ((emptyOptions :: nat QueryHookOptions)\<lparr>variables := Some 2\<rparr>))" "\<lparr>observables = [(0, createWatchQueryOptions ''Q'' (None :: nat QueryHookOptions option))],
       currentResults = (\<lambda>h. \<lparr>oid = h, data = None :: nat option, loading = True,
                              networkStatus = 1, error = None\<rparr>),
       setOptionsError = (\<lambda>h w. Some ''Network error'')\<rparr>"]
  by (simp add: Let_def equal'_def createWatchQueryOptions_def emptyOptions_def
        split: prod.splits)

text \<open>
  C10: a run of the effect assigns the client, the query and the options of the reference
  cell and no other field of it; so, after a hook is mounted, whatever renders follow, the
  \<open>watchQueryOptions\<close> of the reference cell is the configuration computed from the query
  and the options the hook was mounted with.
\<close>

theorem ref_watchQueryOptions_never_reassigned:
  "ref (fst (useEffect eng b cl q options)) =
     (ref b)\<lparr>ref_client := cl, ref_query := q, ref_options := options\<rparr> \<and>
   (let (b0, eng0, rp0) = mount rp eng cl0 q0 options0 in
    ref_watchQueryOptions (ref (fst (cycles eng0 b0 rs))) = createWatchQueryOptions q0 options0)"
proof -
  have step: "ref_watchQueryOptions (ref (fst (cycles e c rs))) = ref_watchQueryOptions (ref c)"
    for e :: "('a, 'b, 'c) Engine" and c
  proof (induction e c rs rule: cycles.induct)
    case (1 e c)
    then show ?case by simp
  next
    case (2 e c cl' q' options' rs)
    obtain c' e' outcome where u: "useEffect e c cl' q' options' = (c', e', outcome)"
      by (cases "useEffect e c cl' q' options'") auto
    have "ref c' = (ref c)\<lparr>ref_client := cl', ref_query := q', ref_options := options'\<rparr>"
      using useEffect_ref [of e c cl' q' options'] u by simp
    then show ?case using 2 u by simp
  qed
  obtain b0 eng0 rp0 where m: "mount rp eng cl0 q0 options0 = (b0, eng0, rp0)"
    by (cases "mount rp eng cl0 q0 options0") auto
  then have "ref_watchQueryOptions (ref b0) = createWatchQueryOptions q0 options0"
    by (auto simp: mount_def split: prod.splits)
  then show ?thesis
    using step [of eng0 b0] m by (simp add: useEffect_ref)
qed

theorem ref_watchQueryOptions_never_reassigned_witness:
  "let (b0, eng0, rp0) = mount None \<lparr>observables = [],
       currentResults = (\<lambda>h. \<lparr>oid = h, data = None :: nat option, loading = True,
                              networkStatus = 1, error = None\<rparr>),
       setOptionsError = (\<lambda>h w. None)\<rparr> 0 ''Q'' (Some ((emptyOptions :: nat QueryHookOptions)\<lparr>variables := Some 1\<rparr>));
       b = fst (cycles eng0 b0 [(0, ''Q'', (Some ((emptyOptions :: nat QueryHookOptions)\<lparr>variables := Some 2\<rparr>))), (1, ''R'', None)])
   in variables (ref_watchQueryOptions (ref b)) = Some 1 \<and>
      query (ref_watchQueryOptions (ref b)) = ''Q'' \<and>
      ref_client (ref b) = 1 \<and> ref_query (ref b) = ''R'' \<and> ref_options (ref b) = None"
  using ref_watchQueryOptions_never_reassigned
    [of "\<lparr>observables = [],
       currentResults = (\<lambda>h. \<lparr>oid = h, data = None :: nat option, loading = True,
                              networkStatus = 1, error = None\<rparr>),
       setOptionsError = (\<lambda>h w. None)\<rparr>" "\<lparr>ref = \<lparr>ref_client = 0, ref_query = ''Q'', ref_options = None,
                 ref_watchQueryOptions = createWatchQueryOptions ''Q'' None\<rparr>,
          obsQuery = 0\<rparr>" 0 "''Q''" None None 0 "''Q''" "(Some ((emptyOptions :: nat QueryHookOptions)\<lparr>variables := Some 1\<rparr>))"
        "[(0, ''Q'', (Some ((emptyOptions :: nat QueryHookOptions)\<lparr>variables := Some 2\<rparr>))), (1, ''R'', None)]"]
  by (simp add: Let_def mount_def useState_init_def useEffect_def watchQuery_def setOptions_def
       equal'_def createWatchQueryOptions_def promiseCatch_def emptyOptions_def
       normalizedFetchPolicy_def truthyFlag_def truthyString_def contextRenderPromises_def
       split: prod.splits)

subsection \<open>Mounting under a pre-render coordinator\<close>



subsection \<open>The wait of a pending hydration\<close>

lemma closed_subscription_silent: "closed w \<Longrightarrow> foldl deliver w ns = w"
proof (induction ns)
  case Nil
  then show ?case by simp
next
  case (Cons n ns)
  then show ?case by (cases n) auto
qed

lemma open_subscription_run:
  "\<not> closed w \<Longrightarrow>
   foldl deliver w ns =
     (case find resolving ns of
        None \<Rightarrow> w
      | Some n \<Rightarrow>
          w\<lparr>closed := True, resolved := resolved w @ [path n],
            unsubscribed := (if n = Complete then unsubscribed w else Suc (unsubscribed w))\<rparr>)"
proof (induction ns)
  case Nil
  then show ?case by simp
next
  case (Cons n ns)
  show ?case
  proof (cases "resolving n")
    case True
    then show ?thesis
      using Cons.prems
      by (cases n)
         (simp_all add: closed_subscription_silent observer_next_def observer_error_def
            observer_complete_def resolve_def unsubscribe_def)
  next
    case False
    then obtain r where "n = Next r" and "loading r"
      by (cases n) auto
    then show ?thesis
      using Cons by (simp add: observer_next_def)
  qed
qed

text \<open>
  C9, as the specification states it, fails: an observable query that sends one loading
  result and nothing after it takes none of the three paths, and \<open>resolve\<close> is not called.
\<close>

theorem loading_only_stream_never_resolves:
  "resolved (fetchData
      [Next \<lparr>oid = 0, data = None :: nat option, loading = True, networkStatus = 1,
             error = None\<rparr>]) = [] \<and>
   length (resolved (fetchData
      [Next \<lparr>oid = 0, data = None :: nat option, loading = True, networkStatus = 1,
             error = None\<rparr>])) \<noteq> 1"
  by (simp add: fetchData_def observer_next_def)

text \<open>
  C9, amended: for every pending hydration at most one of the three paths calls \<open>resolve\<close>
  and none calls it twice; exactly one does as soon as the observable query sends a result
  that is not loading, an error or a completion, and it is the path of the first such
  notification; until then none does. A result that is not loading and an error each call
  \<open>unsubscribe\<close> once, a completion does not call it.
\<close>

theorem hydration_resolves_at_most_once:
  "length (resolved (fetchData ns)) \<le> 1 \<and>
   resolved (fetchData ns) =
     (case find resolving ns of None \<Rightarrow> [] | Some n \<Rightarrow> [path n]) \<and>
   unsubscribed (fetchData ns) =
     (case find resolving ns of None \<Rightarrow> 0 | Some n \<Rightarrow> if n = Complete then 0 else 1)"
  by (simp add: fetchData_def open_subscription_run split: option.splits)

end
